theory Spec2Isabelle
  imports Complex_Main "HOL-Library.AList"
begin

section \<open>JavaScript strings\<close>

text \<open>
  Paths and file contents are JavaScript strings; they are modelled as \<open>string\<close>
  (character lists).  The few methods of \<open>String.prototype\<close> that the sources call
  are written out here.
\<close>

definition startsWith :: "string \<Rightarrow> string \<Rightarrow> bool" where
  "startsWith s p = (take (length p) s = p)"

fun split_from :: "char \<Rightarrow> string \<Rightarrow> string \<Rightarrow> string list" where
  "split_from c cur [] = [rev cur]"
| "split_from c cur (x # xs) =
     (if x = c then rev cur # split_from c [] xs else split_from c (x # cur) xs)"

definition js_split :: "string \<Rightarrow> char \<Rightarrow> string list" where
  "js_split s c = split_from c [] s"

fun js_join :: "string list \<Rightarrow> string \<Rightarrow> string" where
  "js_join [] sep = []"
| "js_join [x] sep = x"
| "js_join (x # y # ys) sep = x @ sep @ js_join (y # ys) sep"

definition lower_char :: "char \<Rightarrow> char" where
  "lower_char c =
     (case map_of (zip ''ABCDEFGHIJKLMNOPQRSTUVWXYZ'' ''abcdefghijklmnopqrstuvwxyz'') c of
        Some d \<Rightarrow> d
      | None \<Rightarrow> c)"

definition toLowerCase :: "string \<Rightarrow> string" where
  "toLowerCase s = map lower_char s"

section \<open>Texts and bytes\<close>

text \<open>
  A file holds bytes, while the program handles texts (JavaScript strings).  A text is
  represented here by its UTF-8 encoding, so two texts are equal exactly when their
  representations are, and writing a text stores its representation.  Reading a file as
  \<open>utf8\<close> decodes its bytes: a well-formed sequence is kept, and every maximal
  ill-formed part is replaced by U+FFFD, whose encoding is \<open>EF BF BD\<close>.  The decoder
  is the one of the Encoding Standard; its arguments are the bytes of the sequence in
  progress, the number of continuation bytes still needed, and the bounds for the next
  byte.
\<close>

type_synonym bytes = string

definition REPLACEMENT :: string where
  "REPLACEMENT = [CHR 0xEF, CHR 0xBF, CHR 0xBD]"

function utf8_decode_loop :: "bytes \<Rightarrow> nat \<Rightarrow> nat \<Rightarrow> nat \<Rightarrow> bytes \<Rightarrow> string" where
  "utf8_decode_loop pending needed lower upper [] =
     (if needed = 0 then [] else REPLACEMENT)"
| "utf8_decode_loop pending needed lower upper (b # bs) =
     (if needed = 0 then
        (if (of_char b :: nat) \<le> 0x7F then b # utf8_decode_loop [] 0 0x80 0xBF bs
         else if 0xC2 \<le> (of_char b :: nat) \<and> (of_char b :: nat) \<le> 0xDF then
           utf8_decode_loop [b] 1 0x80 0xBF bs
         else if 0xE0 \<le> (of_char b :: nat) \<and> (of_char b :: nat) \<le> 0xEF then
           utf8_decode_loop [b] 2
             (if (of_char b :: nat) = 0xE0 then 0xA0 else 0x80)
             (if (of_char b :: nat) = 0xED then 0x9F else 0xBF) bs
         else if 0xF0 \<le> (of_char b :: nat) \<and> (of_char b :: nat) \<le> 0xF4 then
           utf8_decode_loop [b] 3
             (if (of_char b :: nat) = 0xF0 then 0x90 else 0x80)
             (if (of_char b :: nat) = 0xF4 then 0x8F else 0xBF) bs
         else REPLACEMENT @ utf8_decode_loop [] 0 0x80 0xBF bs)
      else if (of_char b :: nat) < lower \<or> upper < (of_char b :: nat) then
        REPLACEMENT @ utf8_decode_loop [] 0 0x80 0xBF (b # bs)
      else if needed = 1 then pending @ [b] @ utf8_decode_loop [] 0 0x80 0xBF bs
      else utf8_decode_loop (pending @ [b]) (needed - 1) 0x80 0xBF bs)"
  by pat_completeness auto
termination
  by (relation "measure (\<lambda>(pending, needed, lower, upper, bs).
                  2 * length bs + (if needed = 0 then 0 else 1))") auto

definition utf8_decode :: "bytes \<Rightarrow> string" where
  "utf8_decode bs = utf8_decode_loop [] 0 0x80 0xBF bs"

section \<open>The functions of \<open>node:path\<close> (POSIX flavour)\<close>

text \<open>
  \<open>extname\<close> scans the path from its last character to its first, so the loop runs
  over the reversed path; the index of the character in hand is the length of what is
  still to be scanned.  The arguments are the local variables \<open>startDot\<close>,
  \<open>startPart\<close>, \<open>end\<close>, \<open>matchedSlash\<close> and \<open>preDotState\<close> of Node's
  implementation, with \<open>-1\<close> for "not set"; the \<open>break\<close> is the branch without a
  recursive call.
\<close>

fun extname_loop ::
  "string \<Rightarrow> int \<Rightarrow> nat \<Rightarrow> int \<Rightarrow> bool \<Rightarrow> int \<Rightarrow> int \<times> nat \<times> int \<times> int" where
  "extname_loop [] startDot startPart endPos matchedSlash preDotState =
     (startDot, startPart, endPos, preDotState)"
| "extname_loop (code # rest) startDot startPart endPos matchedSlash preDotState =
     (if code = CHR ''/'' then
        (if \<not> matchedSlash then (startDot, Suc (length rest), endPos, preDotState)
         else extname_loop rest startDot startPart endPos matchedSlash preDotState)
      else
        extname_loop rest
          (if code = CHR ''.'' \<and> startDot = -1 then int (length rest) else startDot)
          startPart
          (if endPos = -1 then int (length rest) + 1 else endPos)
          (if endPos = -1 then False else matchedSlash)
          (if code = CHR ''.'' then
             (if startDot = -1 then preDotState
              else if preDotState \<noteq> 1 then 1 else preDotState)
           else if startDot \<noteq> -1 then -1 else preDotState))"

definition extname :: "string \<Rightarrow> string" where
  "extname path =
     (case extname_loop (rev path) (-1) 0 (-1) True 0 of
        (startDot, startPart, endPos, preDotState) \<Rightarrow>
          if startDot = -1 \<or> endPos = -1 \<or> preDotState = 0 \<or>
             (preDotState = 1 \<and> startDot = endPos - 1 \<and> startDot = int startPart + 1)
          then []
          else drop (nat startDot) (take (nat endPos) path))"

text \<open>
  \<open>dirname\<close> scans the characters at the indices \<open>length - 1\<close> down to \<open>1\<close> for the
  last slash that is followed by something else than slashes.
\<close>

fun dirname_loop :: "string \<Rightarrow> bool \<Rightarrow> int" where
  "dirname_loop [] matchedSlash = -1"
| "dirname_loop (code # rest) matchedSlash =
     (if code = CHR ''/'' then
        (if \<not> matchedSlash then int (length rest) + 1 else dirname_loop rest matchedSlash)
      else dirname_loop rest False)"

definition dirname :: "string \<Rightarrow> string" where
  "dirname path =
     (case path of
        [] \<Rightarrow> ''.''
      | c # cs \<Rightarrow>
          (if dirname_loop (rev cs) True = -1 then (if c = CHR ''/'' then ''/'' else ''.'')
           else if c = CHR ''/'' \<and> dirname_loop (rev cs) True = 1 then ''//''
           else take (nat (dirname_loop (rev cs) True)) path))"

text \<open>
  \<open>resolve\<close> and \<open>relative\<close> are modelled on the segments of a path: a resolved path
  is \<open>/\<close> followed by its segments joined with \<open>/\<close>; empty segments and \<open>.\<close> are
  dropped, and \<open>..\<close> removes the segment before it (at the top it is dropped).  The
  project root is an absolute path, so \<open>resolve\<close> never consults the working directory.
\<close>

fun normalizeSegments :: "string list \<Rightarrow> string list \<Rightarrow> string list" where
  "normalizeSegments acc [] = rev acc"
| "normalizeSegments acc (s # ss) =
     (if s = [] \<or> s = ''.'' then normalizeSegments acc ss
      else if s = ''..'' then normalizeSegments (case acc of [] \<Rightarrow> [] | _ # up \<Rightarrow> up) ss
      else normalizeSegments (s # acc) ss)"

definition segments :: "string \<Rightarrow> string list" where
  "segments path = normalizeSegments [] (js_split path CHR ''/'')"

definition isAbsolute :: "string \<Rightarrow> bool" where
  "isAbsolute p = (case p of [] \<Rightarrow> False | c # _ \<Rightarrow> c = CHR ''/'')"

definition resolve :: "string \<Rightarrow> string \<Rightarrow> string" where
  "resolve rootDir p =
     CHR ''/'' # js_join (segments (if isAbsolute p then p else rootDir @ ''/'' @ p)) ''/''"

fun dropCommon :: "string list \<Rightarrow> string list \<Rightarrow> string list \<times> string list" where
  "dropCommon (x # xs) (y # ys) = (if x = y then dropCommon xs ys else (x # xs, y # ys))"
| "dropCommon xs ys = (xs, ys)"

definition relative :: "string \<Rightarrow> string \<Rightarrow> string" where
  "relative fromPath toPath =
     (case dropCommon (segments fromPath) (segments toPath) of
        (up, down) \<Rightarrow> js_join (replicate (length up) ''..'' @ down) ''/'')"

section \<open>Errors\<close>

datatype error =
    IllegalSegment string string
  | OutsideRoot string
  | ExtensionNotAllowed string
  | RequiredFileNotFound string
  | NotRegularFile string
  | FileTooLarge string
  | ParseFailure string
  | TypeError
  | ENOENT string
  | EISDIR string

section \<open>The file system\<close>

text \<open>
  The file system is a store from absolute paths to what a program finds there.
  \<open>realpaths\<close> records, for a path that reaches its target through a symbolic link, the
  canonical path of the target; a path without an entry is its own real path.  \<open>now\<close>
  is the time stamp given to a file that is written.  A file's contents are its bytes,
  and its size is their number.
\<close>

datatype kind = RegularFile | Directory

record node =
  kind :: kind
  contents :: bytes
  mtimeMs :: rat

record filesystem =
  files :: "string \<rightharpoonup> node"
  realpaths :: "string \<rightharpoonup> string"
  now :: rat

definition existsSync :: "filesystem \<Rightarrow> string \<Rightarrow> bool" where
  "existsSync fs p = (files fs p \<noteq> None)"

definition realpathSync :: "filesystem \<Rightarrow> string \<Rightarrow> string" where
  "realpathSync fs p = (case realpaths fs p of Some q \<Rightarrow> q | None \<Rightarrow> p)"

definition isDirectory :: "filesystem \<Rightarrow> string \<Rightarrow> bool" where
  "isDirectory fs p = (case files fs p of Some n \<Rightarrow> kind n = Directory | None \<Rightarrow> False)"

text \<open>
  Writing a text creates or replaces a regular file that holds the text's UTF-8
  encoding, which is its representation.  It fails on a directory and where the parent
  directory is missing; failures of the device or of permissions are outside the model.
\<close>

definition writeFileSync :: "filesystem \<Rightarrow> string \<Rightarrow> string \<Rightarrow> error + filesystem" where
  "writeFileSync fs p data =
     (if isDirectory fs p then Inl (EISDIR p)
      else if \<not> existsSync fs p \<and> \<not> isDirectory fs (dirname p) then Inl (ENOENT p)
      else Inr (fs\<lparr>files := (files fs)(p \<mapsto> \<lparr>kind = RegularFile, contents = data,
                                              mtimeMs = now fs\<rparr>)\<rparr>))"

definition renameSync :: "filesystem \<Rightarrow> string \<Rightarrow> string \<Rightarrow> error + filesystem" where
  "renameSync fs oldPath newPath =
     (case files fs oldPath of
        None \<Rightarrow> Inl (ENOENT oldPath)
      | Some n \<Rightarrow>
          if isDirectory fs newPath then Inl (EISDIR newPath)
          else if \<not> existsSync fs newPath \<and> \<not> isDirectory fs (dirname newPath)
          then Inl (ENOENT newPath)
          else Inr (fs\<lparr>files := ((files fs)(oldPath := None))(newPath \<mapsto> n)\<rparr>))"

section \<open>Path guard (\<open>fs-safety.ts\<close>)\<close>

definition SEGMENT_RE_test :: "string \<Rightarrow> bool" where
  "SEGMENT_RE_test segment =
     (segment \<noteq> [] \<and>
      list_all (\<lambda>c. c \<in> set
        ''ABCDEFGHIJKLMNOPQRSTUVWXYZabcdefghijklmnopqrstuvwxyz0123456789._-'') segment)"

fun validate_loop :: "string \<Rightarrow> string list \<Rightarrow> error + unit" where
  "validate_loop p [] = Inr ()"
| "validate_loop p (segment # rest) =
     (if segment = [] \<or> segment = ''.'' \<or> segment = ''..'' then validate_loop p rest
      else if \<not> SEGMENT_RE_test segment then Inl (IllegalSegment segment p)
      else validate_loop p rest)"

definition validateSegments :: "string \<Rightarrow> error + unit" where
  "validateSegments p = validate_loop p (js_split p CHR ''/'')"

definition ensureInsideRoot :: "string \<Rightarrow> filesystem \<Rightarrow> string \<Rightarrow> error + string" where
  "ensureInsideRoot rootDir fs p =
     (case validateSegments p of
        Inl e \<Rightarrow> Inl e
      | Inr _ \<Rightarrow>
          (let absPath = resolve rootDir p;
               finalPath = (if existsSync fs absPath then realpathSync fs absPath else absPath);
               rel = relative rootDir finalPath
           in if startsWith rel ''..'' \<or> (rel = [] \<and> \<not> startsWith finalPath rootDir)
              then Inl (OutsideRoot p)
              else Inr finalPath))"

definition ensureJsonLike :: "string \<Rightarrow> error + unit" where
  "ensureJsonLike pathStr =
     (let ext = toLowerCase (extname pathStr)
      in if ext \<noteq> ''.json'' \<and> ext \<noteq> ''.jsonc'' then Inl (ExtensionNotAllowed pathStr)
         else Inr ())"

text \<open>\<open>safeInputPath\<close> returns \<open>None\<close> for JavaScript's \<open>null\<close>.\<close>

definition safeInputPath ::
  "string \<Rightarrow> filesystem \<Rightarrow> string \<Rightarrow> bool \<Rightarrow> error + string option" where
  "safeInputPath rootDir fs p optional =
     (case ensureJsonLike p of
        Inl e \<Rightarrow> Inl e
      | Inr _ \<Rightarrow>
          (case ensureInsideRoot rootDir fs p of
             Inl e \<Rightarrow> Inl e
           | Inr absPath \<Rightarrow>
               (case files fs absPath of
                  None \<Rightarrow> if optional then Inr None else Inl (RequiredFileNotFound p)
                | Some st \<Rightarrow>
                    if kind st \<noteq> RegularFile then Inl (NotRegularFile p)
                    else Inr (Some absPath))))"

definition safeOutputPath :: "string \<Rightarrow> filesystem \<Rightarrow> string \<Rightarrow> error + string" where
  "safeOutputPath rootDir fs p =
     (case ensureJsonLike p of
        Inl e \<Rightarrow> Inl e
      | Inr _ \<Rightarrow>
          (case ensureInsideRoot rootDir fs (dirname p) of
             Inl e \<Rightarrow> Inl e
           | Inr _ \<Rightarrow> ensureInsideRoot rootDir fs p))"

section \<open>Safe I/O (\<open>fs-safety.ts\<close>)\<close>

text \<open>
  A modification time is a JavaScript number: a finite value, or \<open>-Infinity\<close> for a
  file that is not there.
\<close>

datatype number = NegInfinity | Finite rat

fun number_le :: "number \<Rightarrow> number \<Rightarrow> bool" where
  "number_le NegInfinity y = True"
| "number_le (Finite a) NegInfinity = False"
| "number_le (Finite a) (Finite b) = (a \<le> b)"

definition number_max :: "number \<Rightarrow> number \<Rightarrow> number" where
  "number_max x y = (if number_le x y then y else x)"

definition Math_max :: "number list \<Rightarrow> number" where
  "Math_max xs = foldl number_max NegInfinity xs"

definition getMtimeMs :: "filesystem \<Rightarrow> string option \<Rightarrow> number" where
  "getMtimeMs fs absPath =
     (case absPath of
        None \<Rightarrow> NegInfinity
      | Some p \<Rightarrow>
          (if p = [] then NegInfinity
           else case files fs p of None \<Rightarrow> NegInfinity | Some st \<Rightarrow> Finite (mtimeMs st)))"

definition MAX_FILE_SIZE :: nat where
  "MAX_FILE_SIZE = 100 * 1024 * 1024"

text \<open>
  \<open>readText\<close> compares the size in bytes with the limit and then reads the file as
  \<open>utf8\<close>, which decodes its bytes.
\<close>

definition readText :: "filesystem \<Rightarrow> string \<Rightarrow> error + string" where
  "readText fs absPath =
     (case files fs absPath of
        None \<Rightarrow> Inl (ENOENT absPath)
      | Some stats \<Rightarrow>
          if length (contents stats) > MAX_FILE_SIZE then Inl (FileTooLarge absPath)
          else if kind stats = Directory then Inl (EISDIR absPath)
          else Inr (utf8_decode (contents stats)))"

text \<open>
  \<open>atomicWrite\<close> changes the file system in up to three steps; when a step fails, the
  steps before it have happened, so the file system is returned beside the outcome.
\<close>

definition atomicWrite ::
  "filesystem \<Rightarrow> string \<Rightarrow> string \<Rightarrow> bool \<Rightarrow> (error + string option) \<times> filesystem" where
  "atomicWrite fs outAbs text createBackup =
     (case (if createBackup \<and> existsSync fs outAbs then
              (case readText fs outAbs of
                 Inl e \<Rightarrow> Inl e
               | Inr backupContent \<Rightarrow>
                   (case writeFileSync fs (outAbs @ ''.bak'') backupContent of
                      Inl e \<Rightarrow> Inl e
                    | Inr fs1 \<Rightarrow> Inr (Some (outAbs @ ''.bak''), fs1)))
            else Inr (None, fs)) of
        Inl e \<Rightarrow> (Inl e, fs)
      | Inr (backupPath, fs1) \<Rightarrow>
          (case writeFileSync fs1 (outAbs @ ''.tmp'') text of
             Inl e \<Rightarrow> (Inl e, fs1)
           | Inr fs2 \<Rightarrow>
               (case renameSync fs2 (outAbs @ ''.tmp'') outAbs of
                  Inl e \<Rightarrow> (Inl e, fs2)
                | Inr fs3 \<Rightarrow> (Inr backupPath, fs3))))"

section \<open>Structured values and the \<open>deepmerge\<close> package\<close>

text \<open>
  A parsed file is a JSON tree.  An object keeps its entries in insertion order, as a
  JavaScript object does.
\<close>

datatype json =
    JNull
  | JBool bool
  | JNum rat
  | JStr string
  | JArr "json list"
  | JObj "(string \<times> json) list"

fun isArray :: "json \<Rightarrow> bool" where
  "isArray (JArr xs) = True"
| "isArray v = False"

fun isMergeableObject :: "json \<Rightarrow> bool" where
  "isMergeableObject (JArr xs) = True"
| "isMergeableObject (JObj kvs) = True"
| "isMergeableObject v = False"

text \<open>
  \<open>core.ts\<close> calls \<open>deepmerge(combined, parsed)\<close> with no options, so the package's
  defaults apply: two arrays are concatenated; two values of which exactly one is an
  array give the later one; otherwise the result is an object that starts with the
  entries of the earlier value (when that is an object) and receives every entry of the
  later one, merged recursively where the earlier object has the key and the later
  entry is an object or an array.  The package clones what it copies; on immutable
  trees a clone is the value itself.  Two details of JavaScript objects are not
  modelled: keys that name a member of \<open>Object.prototype\<close>, which the package
  skips, and the enumeration of integer-like keys before all others; the entries stay
  in insertion order.
\<close>

fun merge :: "json \<Rightarrow> json \<Rightarrow> json" where
  "merge (JArr ts) (JArr ss) = JArr (ts @ ss)"
| "merge (JObj tkvs) (JObj skvs) =
     JObj (foldl (\<lambda>destination (key, v).
                    AList.update key
                      (case map_of tkvs key of
                         Some tv \<Rightarrow> if isMergeableObject v then merge tv v else v
                       | None \<Rightarrow> v)
                      destination)
                 tkvs skvs)"
| "merge target (JObj skvs) =
     (if isArray target then JObj skvs
      else JObj (foldl (\<lambda>destination (key, v). AList.update key v destination) [] skvs))"
| "merge target source = source"

text \<open>
  At the top of a file the later value may be a scalar.  \<open>Object.keys\<close> throws on
  \<open>null\<close>, sees no key in a number or a boolean, and sees the indices of a string.
\<close>

fun digits :: "nat \<Rightarrow> nat \<Rightarrow> string" where
  "digits 0 n = []"
| "digits (Suc fuel) n =
     (if n < 10 then [''0123456789'' ! n]
      else digits fuel (n div 10) @ [''0123456789'' ! (n mod 10)])"

definition indexKey :: "nat \<Rightarrow> string" where
  "indexKey n = digits (Suc n) n"

definition targetEntries :: "json \<Rightarrow> (string \<times> json) list" where
  "targetEntries target = (case target of JObj tkvs \<Rightarrow> tkvs | _ \<Rightarrow> [])"

definition deepmerge :: "json \<Rightarrow> json \<Rightarrow> error + json" where
  "deepmerge target source =
     (if isArray source \<noteq> isArray target then Inr source
      else case source of
          JNull \<Rightarrow> Inl TypeError
        | JBool b \<Rightarrow> Inr (JObj (targetEntries target))
        | JNum n \<Rightarrow> Inr (JObj (targetEntries target))
        | JStr str \<Rightarrow>
            Inr (JObj (foldl (\<lambda>destination (key, v). AList.update key v destination)
                         (targetEntries target)
                         (map (\<lambda>i. (indexKey i, JStr [str ! i])) [0..<length str])))
        | _ \<Rightarrow> Inr (merge target source))"

section \<open>The merge decision engine (\<open>core.ts\<close>)\<close>

text \<open>
  The parsers and the serializer are library functions; together with the project root
  \<open>ROOT\<close>, which is fixed when the module is loaded, they are parameters of the model.
  A parser's \<open>Inl\<close> stands for an exception.
\<close>

record platform =
  ROOT :: string
  parseJsonc :: "string \<Rightarrow> error + json"
  JSON5_parse :: "string \<Rightarrow> error + json"
  JSON_stringify :: "json \<Rightarrow> int \<Rightarrow> string"

record MergeOptions =
  out :: string
  inputs :: "string list"
  skipMissing :: "bool option"
  pretty :: "bool option"
  dryRun :: "bool option"
  backup :: "bool option"
  indent :: "int option"

datatype reason = no_inputs | up_to_date | no_content_change | dry_run | wrote | wrote_with_backup

text \<open>
  A \<open>MergeResult\<close> is an object with the fields \<open>wrote\<close>, \<open>reason\<close>, \<open>preview\<close>,
  \<open>out\<close> and \<open>backup\<close>, the last three optional.  The fields of the result are
  prefixed with \<open>r_\<close> to keep them apart from the options and from the reasons.
\<close>

record MergeResult =
  r_wrote :: bool
  r_reason :: reason
  r_preview :: "string option"
  r_out :: "string option"
  r_backup :: "string option"

fun resolve_each :: "string \<Rightarrow> filesystem \<Rightarrow> string list \<Rightarrow> bool \<Rightarrow> error + string option list"
  where
  "resolve_each rootDir fs [] skip = Inr []"
| "resolve_each rootDir fs (p # ps) skip =
     (case safeInputPath rootDir fs p skip of
        Inl e \<Rightarrow> Inl e
      | Inr r \<Rightarrow>
          (case resolve_each rootDir fs ps skip of
             Inl e \<Rightarrow> Inl e
           | Inr rs \<Rightarrow> Inr (r # rs)))"

definition resolveInputPaths ::
  "string \<Rightarrow> filesystem \<Rightarrow> string list \<Rightarrow> bool \<Rightarrow> error + string list" where
  "resolveInputPaths rootDir fs ins skip =
     (case resolve_each rootDir fs ins skip of
        Inl e \<Rightarrow> Inl e
      | Inr rs \<Rightarrow> Inr (filter (\<lambda>p. p \<noteq> []) (List.map_filter (\<lambda>r. r) rs)))"

definition checkIfUpToDate :: "filesystem \<Rightarrow> string \<Rightarrow> string list \<Rightarrow> bool \<Rightarrow> bool" where
  "checkIfUpToDate fs outAbs inputAbs dry =
     (if \<not> existsSync fs outAbs \<or> dry then False
      else number_le (Math_max (map (\<lambda>p. getMtimeMs fs (Some p)) inputAbs))
                     (getMtimeMs fs (Some outAbs)))"

definition parseJsonFile :: "platform \<Rightarrow> string \<Rightarrow> string \<Rightarrow> error + json" where
  "parseJsonFile pf filePath content =
     (let ext = last (js_split (toLowerCase filePath) CHR ''.'')
      in case (if ext = ''json5'' then JSON5_parse pf content else parseJsonc pf content) of
           Inl e \<Rightarrow> Inl (ParseFailure filePath)
         | Inr parsed \<Rightarrow> Inr parsed)"

fun mergeFiles_loop :: "platform \<Rightarrow> filesystem \<Rightarrow> json \<Rightarrow> string list \<Rightarrow> error + json" where
  "mergeFiles_loop pf fs combined [] = Inr combined"
| "mergeFiles_loop pf fs combined (absPath # rest) =
     (case readText fs absPath of
        Inl e \<Rightarrow> Inl e
      | Inr content \<Rightarrow>
          (case parseJsonFile pf absPath content of
             Inl e \<Rightarrow> Inl e
           | Inr parsed \<Rightarrow>
               (case deepmerge combined parsed of
                  Inl e \<Rightarrow> Inl e
                | Inr combined' \<Rightarrow> mergeFiles_loop pf fs combined' rest)))"

definition mergeFiles :: "platform \<Rightarrow> filesystem \<Rightarrow> string list \<Rightarrow> error + json" where
  "mergeFiles pf fs inputAbs = mergeFiles_loop pf fs (JObj []) inputAbs"

definition calculateIndentation :: "int option \<Rightarrow> bool \<Rightarrow> int" where
  "calculateIndentation ind pty =
     (case ind of Some n \<Rightarrow> n | None \<Rightarrow> if pty then 2 else 0)"

definition checkContentChanged :: "filesystem \<Rightarrow> string \<Rightarrow> string \<Rightarrow> error + bool" where
  "checkContentChanged fs outAbs newText =
     (if \<not> existsSync fs outAbs then Inr True
      else case readText fs outAbs of
             Inl e \<Rightarrow> Inl e
           | Inr current \<Rightarrow> Inr (current \<noteq> newText))"

definition orDefault :: "'a option \<Rightarrow> 'a \<Rightarrow> 'a" where
  "orDefault v d = (case v of Some x \<Rightarrow> x | None \<Rightarrow> d)"

definition mergeJsonc ::
  "platform \<Rightarrow> filesystem \<Rightarrow> MergeOptions \<Rightarrow> (error + MergeResult) \<times> filesystem" where
  "mergeJsonc pf fs opts =
     (case resolveInputPaths (ROOT pf) fs (inputs opts) (orDefault (skipMissing opts) False) of
        Inl e \<Rightarrow> (Inl e, fs)
      | Inr inputAbs \<Rightarrow>
          if length inputAbs = 0 then
            (Inr \<lparr>r_wrote = False, r_reason = no_inputs, r_preview = None, r_out = None,
                  r_backup = None\<rparr>, fs)
          else
            (case safeOutputPath (ROOT pf) fs (out opts) of
               Inl e \<Rightarrow> (Inl e, fs)
             | Inr outAbs \<Rightarrow>
                 (case mergeFiles pf fs inputAbs of
                    Inl e \<Rightarrow> (Inl e, fs)
                  | Inr combined \<Rightarrow>
                      (let spaces = calculateIndentation (indent opts)
                                      (orDefault (pretty opts) True);
                           text = JSON_stringify pf combined spaces
                       in case checkContentChanged fs outAbs text of
                            Inl e \<Rightarrow> (Inl e, fs)
                          | Inr changed \<Rightarrow>
                              if \<not> changed then
                                (Inr \<lparr>r_wrote = False, r_reason = no_content_change,
                                      r_preview = None, r_out = None, r_backup = None\<rparr>, fs)
                              else if checkIfUpToDate fs outAbs inputAbs
                                        (orDefault (dryRun opts) False) then
                                (Inr \<lparr>r_wrote = False, r_reason = up_to_date,
                                      r_preview = None, r_out = None, r_backup = None\<rparr>, fs)
                              else if orDefault (dryRun opts) False then
                                (Inr \<lparr>r_wrote = False, r_reason = dry_run,
                                      r_preview = Some text, r_out = None,
                                      r_backup = None\<rparr>, fs)
                              else
                                (case atomicWrite fs outAbs text
                                        (orDefault (backup opts) False) of
                                   (Inl e, fs') \<Rightarrow> (Inl e, fs')
                                 | (Inr backupPath, fs') \<Rightarrow>
                                     (Inr \<lparr>r_wrote = True,
                                           r_reason =
                                             (if backupPath \<noteq> None \<and> backupPath \<noteq> Some []
                                              then wrote_with_backup else wrote),
                                           r_preview = None, r_out = Some outAbs,
                                           r_backup = backupPath\<rparr>, fs'))))))"

section \<open>An example project\<close>

text \<open>
  A small project directory \<open>/proj\<close> on which the results below are exercised.  The
  example parser and serializer know the handful of texts and values that occur in it.
  The file \<open>raw.json\<close> starts with the two bytes of a UTF-16 byte order mark, which
  are not well-formed UTF-8.
\<close>

definition example_parse :: "string \<Rightarrow> error + json" where
  \<open>example_parse s =
     (if s = ''{"a":1}'' then Inr (JObj [(''a'', JNum 1)])
      else if s = ''{"items": [1, 2]}'' then Inr (JObj [(''items'', JArr [JNum 1, JNum 2])])
      else if s = ''{"items": [3, 4]}'' then Inr (JObj [(''items'', JArr [JNum 3, JNum 4])])
      else Inl (ParseFailure s))\<close>

definition example_stringify :: "json \<Rightarrow> int \<Rightarrow> string" where
  \<open>example_stringify v spaces =
     (if v = JObj [(''a'', JNum 1)] then (if spaces = 0 then ''{"a":1}'' else ''{ "a": 1 }'')
      else ''null'')\<close>

definition example_platform :: platform where
  "example_platform =
     \<lparr>ROOT = ''/proj'', parseJsonc = example_parse, JSON5_parse = example_parse,
      JSON_stringify = example_stringify\<rparr>"

definition example_fs :: filesystem where
  \<open>example_fs =
     \<lparr>files =
        [''/proj'' \<mapsto> \<lparr>kind = Directory, contents = [], mtimeMs = 10\<rparr>,
         ''/proj/a.json'' \<mapsto> \<lparr>kind = RegularFile, contents = ''{"a":1}'', mtimeMs = 100\<rparr>,
         ''/proj/same.json'' \<mapsto> \<lparr>kind = RegularFile, contents = ''{"a":1}'', mtimeMs = 50\<rparr>,
         ''/proj/tie.json'' \<mapsto> \<lparr>kind = RegularFile, contents = ''{}'', mtimeMs = 100\<rparr>,
         ''/proj/old.json'' \<mapsto> \<lparr>kind = RegularFile, contents = ''{}'', mtimeMs = 50\<rparr>,
         ''/proj/old.json.bak'' \<mapsto> \<lparr>kind = RegularFile, contents = ''stale'', mtimeMs = 20\<rparr>,
         ''/proj/x.jsonc'' \<mapsto>
           \<lparr>kind = RegularFile, contents = ''{"items": [1, 2]}'', mtimeMs = 30\<rparr>,
         ''/proj/y.jsonc'' \<mapsto>
           \<lparr>kind = RegularFile, contents = ''{"items": [3, 4]}'', mtimeMs = 40\<rparr>,
         ''/proj/link.json'' \<mapsto> \<lparr>kind = RegularFile, contents = ''secret'', mtimeMs = 5\<rparr>,
         ''/proj/raw.json'' \<mapsto>
           \<lparr>kind = RegularFile, contents = [CHR 0xFF, CHR 0xFE, CHR ''{'', CHR ''}''],
            mtimeMs = 50\<rparr>],
      realpaths = [''/proj/link.json'' \<mapsto> ''/etc/secret.json''],
      now = 300\<rparr>\<close>

definition example_options :: "string \<Rightarrow> bool \<Rightarrow> bool \<Rightarrow> MergeOptions" where
  "example_options outPath dry bak =
     \<lparr>out = outPath, inputs = [''a.json''], skipMissing = None, pretty = Some False,
      dryRun = Some dry, backup = Some bak, indent = None\<rparr>"

section \<open>Facts about decoding\<close>



section \<open>Facts about the file operations\<close>


lemma writeFileSync_files:
  assumes "writeFileSync fs p d = Inr fs'"
  shows "fs' = fs\<lparr>files := (files fs)(p \<mapsto> \<lparr>kind = RegularFile, contents = d, mtimeMs = now fs\<rparr>)\<rparr>"
  using assms by (simp add: writeFileSync_def split: if_splits)

lemma renameSync_files:
  assumes "renameSync fs a b = Inr fs'"
  shows "\<exists>n. files fs a = Some n \<and> fs' = fs\<lparr>files := ((files fs)(a := None))(b \<mapsto> n)\<rparr>"
  using assms by (auto simp add: renameSync_def split: option.splits if_splits)

lemma atomicWrite_with_backup:
  assumes "atomicWrite fs outAbs text bk = (Inr (Some b), fs')"
  shows "bk \<and> b = outAbs @ ''.bak'' \<and>
         (\<exists>old fs1 fs2. readText fs outAbs = Inr old \<and>
            writeFileSync fs (outAbs @ ''.bak'') old = Inr fs1 \<and>
            writeFileSync fs1 (outAbs @ ''.tmp'') text = Inr fs2 \<and>
            renameSync fs2 (outAbs @ ''.tmp'') outAbs = Inr fs')"
  using assms
  by (auto simp add: atomicWrite_def split: if_splits sum.splits prod.splits)

lemma atomicWrite_without_backup:
  assumes "atomicWrite fs outAbs text bk = (Inr None, fs')"
  shows "\<not> (bk \<and> existsSync fs outAbs) \<and>
         (\<exists>fs2. writeFileSync fs (outAbs @ ''.tmp'') text = Inr fs2 \<and>
            renameSync fs2 (outAbs @ ''.tmp'') outAbs = Inr fs')"
  using assms
  by (auto simp add: atomicWrite_def split: if_splits sum.splits prod.splits)

lemma atomicWrite_backup_iff:
  assumes "atomicWrite fs outAbs text bk = (Inr bp, fs')"
  shows "bp = (if bk \<and> existsSync fs outAbs then Some (outAbs @ ''.bak'') else None)"
  using assms
  by (auto simp add: atomicWrite_def split: if_splits sum.splits prod.splits)

lemma atomicWrite_backup_files:
  assumes "atomicWrite fs outAbs text bk = (Inr (Some b), fs')"
      and "readText fs outAbs = Inr old"
  shows "files fs' (outAbs @ ''.bak'') = Some \<lparr>kind = RegularFile, contents = old, mtimeMs = now fs\<rparr>"
    and "files fs' outAbs = Some \<lparr>kind = RegularFile, contents = text, mtimeMs = now fs\<rparr>"
    and "files fs' (outAbs @ ''.tmp'') = None"
    and "\<And>p. p \<noteq> outAbs \<Longrightarrow> p \<noteq> outAbs @ ''.bak'' \<Longrightarrow> p \<noteq> outAbs @ ''.tmp'' \<Longrightarrow> files fs' p = files fs p"
proof -
  from atomicWrite_with_backup[OF assms(1)] assms(2) obtain fs1 fs2 where
    w1: "writeFileSync fs (outAbs @ ''.bak'') old = Inr fs1" and
    w2: "writeFileSync fs1 (outAbs @ ''.tmp'') text = Inr fs2" and
    rn: "renameSync fs2 (outAbs @ ''.tmp'') outAbs = Inr fs'"
    by auto
  note f1 = writeFileSync_files[OF w1] and f2 = writeFileSync_files[OF w2]
  from renameSync_files[OF rn] obtain n where
    n: "files fs2 (outAbs @ ''.tmp'') = Some n" and f3: "fs' = fs2\<lparr>files := ((files fs2)(outAbs @ ''.tmp'' := None))(outAbs \<mapsto> n)\<rparr>"
    by auto
  from n f2 have n_eq: "n = \<lparr>kind = RegularFile, contents = text, mtimeMs = now fs\<rparr>"
    by (simp add: f1)
  show "files fs' (outAbs @ ''.bak'') = Some \<lparr>kind = RegularFile, contents = old, mtimeMs = now fs\<rparr>"
    by (simp add: f3 f2 f1)
  show "files fs' outAbs = Some \<lparr>kind = RegularFile, contents = text, mtimeMs = now fs\<rparr>"
    by (simp add: f3 n_eq)
  show "files fs' (outAbs @ ''.tmp'') = None"
    by (simp add: f3)
  show "\<And>p. p \<noteq> outAbs \<Longrightarrow> p \<noteq> outAbs @ ''.bak'' \<Longrightarrow> p \<noteq> outAbs @ ''.tmp'' \<Longrightarrow> files fs' p = files fs p"
    by (simp add: f3 f2 f1)
qed

lemma atomicWrite_plain_files:
  assumes "atomicWrite fs outAbs text bk = (Inr None, fs')"
  shows "files fs' outAbs = Some \<lparr>kind = RegularFile, contents = text, mtimeMs = now fs\<rparr>"
    and "files fs' (outAbs @ ''.tmp'') = None"
    and "\<And>p. p \<noteq> outAbs \<Longrightarrow> p \<noteq> outAbs @ ''.tmp'' \<Longrightarrow> files fs' p = files fs p"
proof -
  from atomicWrite_without_backup [OF assms] obtain fs2 where
    w2: "writeFileSync fs (outAbs @ ''.tmp'') text = Inr fs2" and
    rn: "renameSync fs2 (outAbs @ ''.tmp'') outAbs = Inr fs'"
    by auto
  note f2 = writeFileSync_files [OF w2]
  from renameSync_files [OF rn] obtain n where
    n: "files fs2 (outAbs @ ''.tmp'') = Some n" and
    f3: "fs' = fs2\<lparr>files := ((files fs2)(outAbs @ ''.tmp'' := None))(outAbs \<mapsto> n)\<rparr>"
    by auto
  from n f2 have n_eq: "n = \<lparr>kind = RegularFile, contents = text, mtimeMs = now fs\<rparr>"
    by simp
  show "files fs' outAbs = Some \<lparr>kind = RegularFile, contents = text, mtimeMs = now fs\<rparr>"
    by (simp add: f3 n_eq)
  show "files fs' (outAbs @ ''.tmp'') = None"
    by (simp add: f3)
  show "\<And>p. p \<noteq> outAbs \<Longrightarrow> p \<noteq> outAbs @ ''.tmp'' \<Longrightarrow> files fs' p = files fs p"
    by (simp add: f3 f2)
qed

lemma mergeJsonc_result_cases:
  assumes "mergeJsonc pf fs opts = (Inr r, fs')"
  obtains
    (skipped) "fs' = fs" and "r_reason r = no_inputs \<or> r_reason r = up_to_date \<or> r_reason r = no_content_change"
      and "r_wrote r = False" and "r_preview r = None" and "r_out r = None" and "r_backup r = None"
  | (previewed) newText where "fs' = fs" and "orDefault (dryRun opts) False"
      and "r = \<lparr>r_wrote = False, r_reason = dry_run, r_preview = Some newText, r_out = None, r_backup = None\<rparr>"
  | (committed) inputAbs outAbs newText bp where
        "resolveInputPaths (ROOT pf) fs (inputs opts) (orDefault (skipMissing opts) False) = Inr inputAbs"
      and "safeOutputPath (ROOT pf) fs (out opts) = Inr outAbs"
      and "\<not> orDefault (dryRun opts) False"
      and "atomicWrite fs outAbs newText (orDefault (backup opts) False) = (Inr bp, fs')"
      and "r = \<lparr>r_wrote = True,
                r_reason = (if bp \<noteq> None \<and> bp \<noteq> Some [] then wrote_with_backup else wrote),
                r_preview = None, r_out = Some outAbs, r_backup = bp\<rparr>"
  using assms
  by (auto simp add: mergeJsonc_def Let_def split: sum.splits if_splits prod.splits)

section \<open>Facts about the path guard\<close>

text \<open>
  A path that \<open>ensureInsideRoot\<close> returns has the segments of the root as a prefix of
  its own, whether it was reached literally or through a symbolic link; and the extension
  check accepts exactly the extensions \<open>.json\<close> and \<open>.jsonc\<close>, in any case.
\<close>

lemma dropCommon_prefix:
  "dropCommon xs ys = ([], down) \<Longrightarrow> ys = xs @ down"
  by (induction xs ys rule: dropCommon.induct) (auto split: if_splits)

lemma js_join_dotdot:
  "startsWith (js_join (''..'' # rest) ''/'') ''..''"
  by (cases rest) (simp_all add: startsWith_def)

lemma relative_outside:
  assumes "\<not> startsWith (relative rootDir finalPath) ''..''"
  shows "\<exists>down. segments finalPath = segments rootDir @ down"
proof -
  obtain up down where dc: "dropCommon (segments rootDir) (segments finalPath) = (up, down)"
    by (cases "dropCommon (segments rootDir) (segments finalPath)") auto
  have "up = []"
  proof (cases up)
    case Nil
    then show ?thesis .
  next
    case (Cons u us)
    then have "relative rootDir finalPath =
                 js_join (''..'' # (replicate (length us) ''..'' @ down)) ''/''"
      using dc by (simp add: relative_def)
    with js_join_dotdot assms show ?thesis by simp
  qed
  with dc dropCommon_prefix show ?thesis by blast
qed

lemma ensureInsideRoot_under_root:
  assumes "ensureInsideRoot rootDir fs p = Inr finalPath"
  shows "\<exists>down. segments finalPath = segments rootDir @ down"
    and "validateSegments p = Inr ()"
    and "finalPath = (if existsSync fs (resolve rootDir p)
                      then realpathSync fs (resolve rootDir p) else resolve rootDir p)"
proof -
  from assms have ok: "\<not> startsWith (relative rootDir finalPath) ''..''"
    and fp: "finalPath = (if existsSync fs (resolve rootDir p)
                      then realpathSync fs (resolve rootDir p) else resolve rootDir p)"
    and vs: "validateSegments p = Inr ()"
    by (auto simp add: ensureInsideRoot_def Let_def split: sum.splits if_splits)
  from relative_outside [OF ok] show "\<exists>down. segments finalPath = segments rootDir @ down" .
  from fp show "finalPath = (if existsSync fs (resolve rootDir p)
                      then realpathSync fs (resolve rootDir p) else resolve rootDir p)" .
  from vs show "validateSegments p = Inr ()" .
qed

lemma ensureJsonLike_accepts_iff:
  "ensureJsonLike p = Inr () \<longleftrightarrow>
     toLowerCase (extname p) = ''.json'' \<or> toLowerCase (extname p) = ''.jsonc''"
  by (simp add: ensureJsonLike_def Let_def)

section \<open>The example project, evaluated\<close>

lemmas path_eval =
  ensureJsonLike_def extname_def toLowerCase_def lower_char_def ensureInsideRoot_def
  validateSegments_def js_split_def SEGMENT_RE_test_def resolve_def segments_def
  isAbsolute_def existsSync_def relative_def startsWith_def dirname_def realpathSync_def

lemma example_inputs:
  "resolveInputPaths ''/proj'' example_fs [''a.json''] False = Inr [''/proj/a.json'']"
  by (simp add: resolveInputPaths_def safeInputPath_def path_eval example_fs_def
      List.map_filter_def)

lemma example_out_same:
  "safeOutputPath ''/proj'' example_fs ''same.json'' = Inr ''/proj/same.json''"
  by (simp add: safeOutputPath_def path_eval example_fs_def)

lemma example_out_tie:
  "safeOutputPath ''/proj'' example_fs ''tie.json'' = Inr ''/proj/tie.json''"
  by (simp add: safeOutputPath_def path_eval example_fs_def)

lemma example_out_old:
  "safeOutputPath ''/proj'' example_fs ''old.json'' = Inr ''/proj/old.json''"
  by (simp add: safeOutputPath_def path_eval example_fs_def)

lemma example_out_fresh:
  "safeOutputPath ''/proj'' example_fs ''fresh.json'' = Inr ''/proj/fresh.json''"
  by (simp add: safeOutputPath_def path_eval example_fs_def)

lemma example_merge:
  "mergeFiles example_platform example_fs [''/proj/a.json''] = Inr (JObj [(''a'', JNum 1)])"
  by (simp add: mergeFiles_def readText_def utf8_decode_def example_fs_def MAX_FILE_SIZE_def parseJsonFile_def
      toLowerCase_def lower_char_def js_split_def example_platform_def example_parse_def
      deepmerge_def targetEntries_def)

lemma example_text:
  \<open>JSON_stringify example_platform (JObj [(''a'', JNum 1)])
     (calculateIndentation (indent (example_options p d b))
        (orDefault (pretty (example_options p d b)) True)) = ''{"a":1}''\<close>
  by (simp add: example_platform_def example_stringify_def calculateIndentation_def
      example_options_def orDefault_def)

lemma example_stage_inputs:
  "resolveInputPaths (ROOT example_platform) example_fs (inputs (example_options p d b))
     (orDefault (skipMissing (example_options p d b)) False) = Inr [''/proj/a.json'']"
  using example_inputs by (simp add: example_platform_def example_options_def orDefault_def)

lemma example_stage_output:
  "safeOutputPath ''/proj'' example_fs p = r \<Longrightarrow>
   safeOutputPath (ROOT example_platform) example_fs (out (example_options p d b)) = r"
  by (simp add: example_platform_def example_options_def)

lemma example_flags:
  "orDefault (dryRun (example_options p d b)) False = d"
  "orDefault (backup (example_options p d b)) False = b"
  by (simp_all add: example_options_def orDefault_def)

lemma example_mtimes:
  "getMtimeMs example_fs (Some ''/proj/a.json'') = Finite 100"
  "getMtimeMs example_fs (Some ''/proj/tie.json'') = Finite 100"
  "getMtimeMs example_fs (Some ''/proj/same.json'') = Finite 50"
  by (simp_all add: getMtimeMs_def example_fs_def)

lemma example_exists:
  "existsSync example_fs ''/proj/tie.json''"
  "existsSync example_fs ''/proj/old.json''"
  "existsSync example_fs ''/proj/same.json''"
  "\<not> existsSync example_fs ''/proj/fresh.json''"
  by (simp_all add: existsSync_def example_fs_def)

lemma example_read_tie: "readText example_fs ''/proj/tie.json'' = Inr ''{}''"
  by (simp add: readText_def utf8_decode_def example_fs_def MAX_FILE_SIZE_def)

lemma example_read_old: "readText example_fs ''/proj/old.json'' = Inr ''{}''"
  by (simp add: readText_def utf8_decode_def example_fs_def MAX_FILE_SIZE_def)

lemma example_not_up_to_date:
  "\<not> checkIfUpToDate example_fs ''/proj/old.json'' [''/proj/a.json''] False"
  by (simp add: checkIfUpToDate_def getMtimeMs_def example_fs_def Math_max_def number_max_def)

lemma example_commit_old:
  \<open>fst (atomicWrite example_fs ''/proj/old.json'' ''{"a":1}'' True) =
     Inr (Some ''/proj/old.json.bak'')\<close>
  by (simp add: atomicWrite_def readText_def utf8_decode_def MAX_FILE_SIZE_def writeFileSync_def
      renameSync_def isDirectory_def existsSync_def dirname_def example_fs_def)

lemma example_run_old:
  "fst (mergeJsonc example_platform example_fs (example_options ''old.json'' False True)) =
     Inr \<lparr>r_wrote = True, r_reason = wrote_with_backup, r_preview = None,
          r_out = Some ''/proj/old.json'', r_backup = Some ''/proj/old.json.bak''\<rparr>"
proof -
  obtain fs' where aw: \<open>atomicWrite example_fs ''/proj/old.json'' ''{"a":1}'' True =
                         (Inr (Some ''/proj/old.json.bak''), fs')\<close>
    using example_commit_old
    by (cases \<open>atomicWrite example_fs ''/proj/old.json'' ''{"a":1}'' True\<close>) simp
  show ?thesis
    by (simp add: mergeJsonc_def Let_def example_stage_inputs
        example_stage_output [OF example_out_old] example_merge example_text example_flags
        checkContentChanged_def example_exists example_read_old example_not_up_to_date aw)
qed

lemma example_commit_fresh:
  \<open>fst (atomicWrite example_fs ''/proj/fresh.json'' ''{"a":1}'' True) = Inr None\<close>
  by (simp add: atomicWrite_def readText_def utf8_decode_def MAX_FILE_SIZE_def writeFileSync_def
      renameSync_def isDirectory_def existsSync_def dirname_def example_fs_def)

lemma example_run_fresh:
  "fst (mergeJsonc example_platform example_fs (example_options ''fresh.json'' False True)) =
     Inr \<lparr>r_wrote = True, r_reason = wrote, r_preview = None,
          r_out = Some ''/proj/fresh.json'', r_backup = None\<rparr>"
proof -
  obtain fs' where aw: \<open>atomicWrite example_fs ''/proj/fresh.json'' ''{"a":1}'' True =
                         (Inr None, fs')\<close>
    using example_commit_fresh
    by (cases \<open>atomicWrite example_fs ''/proj/fresh.json'' ''{"a":1}'' True\<close>) simp
  have "\<not> checkIfUpToDate example_fs ''/proj/fresh.json'' [''/proj/a.json''] False"
    by (simp add: checkIfUpToDate_def example_exists)
  then show ?thesis
    by (simp add: mergeJsonc_def Let_def example_stage_inputs
        example_stage_output [OF example_out_fresh] example_merge example_text example_flags
        checkContentChanged_def example_exists aw)
qed





lemma example_missing_inputs:
  "resolveInputPaths ''/proj'' example_fs [''missing1.json'', ''missing2.json''] True = Inr []"
  by (simp add: resolveInputPaths_def safeInputPath_def ensureJsonLike_def extname_def
      toLowerCase_def lower_char_def ensureInsideRoot_def validateSegments_def js_split_def
      SEGMENT_RE_test_def resolve_def segments_def isAbsolute_def existsSync_def example_fs_def
      relative_def startsWith_def List.map_filter_def)

lemma example_bad_output:
  "safeOutputPath ''/proj'' example_fs ''../bad out.txt'' =
     Inl (ExtensionNotAllowed ''../bad out.txt'')"
  by (simp add: safeOutputPath_def ensureJsonLike_def extname_def toLowerCase_def
      lower_char_def)

lemma example_symlink_escape:
  "ensureInsideRoot ''/proj'' example_fs ''link.json'' = Inl (OutsideRoot ''link.json'')"
  "ensureInsideRoot ''/proj'' example_fs ''a/../../etc/passwd.json'' =
     Inl (OutsideRoot ''a/../../etc/passwd.json'')"
  by (simp_all add: ensureInsideRoot_def validateSegments_def js_split_def SEGMENT_RE_test_def
      resolve_def segments_def isAbsolute_def existsSync_def realpathSync_def example_fs_def
      relative_def startsWith_def)

section \<open>Array strategy\<close>

text \<open>
  C1.  When two arrays collide during the deep merge, the configured strategy is applied:
  concatenate, or replace, with replace when no strategy is supplied; merging
  \<open>{items:[1,2]}\<close> then \<open>{items:[3,4]}\<close> with the default options yields
  \<open>{items:[3,4]}\<close>.

  \<open>MergeOptions\<close> in \<open>core.ts\<close> has no strategy field and \<open>mergeFiles\<close> calls
  \<open>deepmerge\<close> without options, so arrays are always concatenated: on the two files
  of the repository's own test "should replace arrays by default" the merged value is
  \<open>{items:[1,2,3,4]}\<close>.
\<close>

theorem mergeFiles_concatenates_arrays:
  "mergeFiles example_platform example_fs [''/proj/x.jsonc'', ''/proj/y.jsonc''] =
     Inr (JObj [(''items'', JArr [JNum 1, JNum 2, JNum 3, JNum 4])])"
  by (simp add: mergeFiles_def readText_def utf8_decode_def example_fs_def MAX_FILE_SIZE_def parseJsonFile_def
      toLowerCase_def lower_char_def js_split_def example_platform_def example_parse_def
      deepmerge_def)

section \<open>Extension check\<close>

text \<open>
  C4.  The extension check fails for every path whose extension (case-insensitive) is
  outside the allow-list, and does not fail for paths ending in \<open>.json\<close>, \<open>.jsonc\<close> or
  \<open>.json5\<close>.

  \<open>ensureJsonLike\<close> compares the extension with \<open>.json\<close> and \<open>.jsonc\<close> only, so it
  rejects \<open>file.json5\<close>, the path of the repository's test "should allow .json5 files".
\<close>

theorem ensureJsonLike_rejects_json5:
  "ensureJsonLike ''file.json5'' = Inl (ExtensionNotAllowed ''file.json5'')"
  by (simp add: ensureJsonLike_def extname_def toLowerCase_def lower_char_def)

section \<open>Root containment\<close>

text \<open>
  C7.  \<open>ensureInsideRoot\<close> fails for every path that escapes the project root, and for
  every path with only safe-character segments that resolves inside the root it returns
  the real absolute path without failing.

  The test for an escape is that the root-relative path starts with two dots, which is
  also true of a file inside the root whose name starts with two dots:
  \<open>..foo.json\<close> passes \<open>validateSegments\<close>, resolves to \<open>/proj/..foo.json\<close> inside
  the root \<open>/proj\<close>, and is rejected as outside the project root.
\<close>

theorem ensureInsideRoot_rejects_dotdot_name:
  "validateSegments ''..foo.json'' = Inr () \<and>
   resolve ''/proj'' ''..foo.json'' = ''/proj/..foo.json'' \<and>
   ensureInsideRoot ''/proj'' example_fs ''..foo.json'' = Inl (OutsideRoot ''..foo.json'')"
  by (simp add: ensureInsideRoot_def validateSegments_def js_split_def SEGMENT_RE_test_def
      resolve_def segments_def isAbsolute_def existsSync_def example_fs_def relative_def
      startsWith_def)

section \<open>The decision engine\<close>

text \<open>
  The theorems of this section share their first hypotheses: the inputs resolve to
  \<open>inputAbs\<close>, at least one remains, the output path resolves to \<open>outAbs\<close>, and the
  inputs merge to \<open>combined\<close>.
\<close>

text \<open>
  C8.  When zero inputs remain after resolution, the result is \<open>no_inputs\<close> and nothing
  else happens: the output path is never resolved, validated or written.  The theorem
  holds for every output path, valid or not, and returns the file system as it was.
\<close>

theorem no_inputs_short_circuit:
  assumes "resolveInputPaths (ROOT pf) fs (inputs opts) (orDefault (skipMissing opts) False)
             = Inr []"
  shows "mergeJsonc pf fs opts =
           (Inr \<lparr>r_wrote = False, r_reason = no_inputs, r_preview = None, r_out = None,
                 r_backup = None\<rparr>, fs)"
  using assms by (simp add: mergeJsonc_def)

text \<open>
  The scenario of the specification: both inputs are missing and skipped, and the output
  path, which the path guard would reject, is never looked at.
\<close>

theorem no_inputs_short_circuit_witness:
  "safeOutputPath (ROOT example_platform) example_fs ''../bad out.txt'' =
     Inl (ExtensionNotAllowed ''../bad out.txt'') \<and>
   mergeJsonc example_platform example_fs
     \<lparr>out = ''../bad out.txt'', inputs = [''missing1.json'', ''missing2.json''],
      skipMissing = Some True, pretty = None, dryRun = None, backup = Some True,
      indent = None\<rparr> =
     (Inr \<lparr>r_wrote = False, r_reason = no_inputs, r_preview = None, r_out = None,
           r_backup = None\<rparr>, example_fs)"
  using no_inputs_short_circuit [of example_platform example_fs
     "\<lparr>out = ''../bad out.txt'', inputs = [''missing1.json'', ''missing2.json''],
       skipMissing = Some True, pretty = None, dryRun = None, backup = Some True,
       indent = None\<rparr>"]
    example_missing_inputs example_bad_output
  by (simp add: example_platform_def orDefault_def)

text \<open>
  C2.  When the output file exists and its content equals the newly serialized text, the
  result is \<open>no_content_change\<close>, with no write and no backup, whatever the dry-run
  flag and the modification times are: the theorem has no hypothesis about either, and
  the file system is returned unchanged.  The content is what \<open>readText\<close> returns, so
  the output is a regular file within the size limit.
\<close>

theorem content_equal_no_change:
  assumes "resolveInputPaths (ROOT pf) fs (inputs opts) (orDefault (skipMissing opts) False)
             = Inr inputAbs"
      and "inputAbs \<noteq> []"
      and "safeOutputPath (ROOT pf) fs (out opts) = Inr outAbs"
      and "mergeFiles pf fs inputAbs = Inr combined"
      and "existsSync fs outAbs"
      and "readText fs outAbs =
             Inr (JSON_stringify pf combined
                    (calculateIndentation (indent opts) (orDefault (pretty opts) True)))"
  shows "mergeJsonc pf fs opts =
           (Inr \<lparr>r_wrote = False, r_reason = no_content_change, r_preview = None,
                 r_out = None, r_backup = None\<rparr>, fs)"
  using assms by (simp add: mergeJsonc_def checkContentChanged_def Let_def)

text \<open>
  In the example the output \<open>same.json\<close> is older than the input, and the result is
  the same with and without dry-run.
\<close>

theorem content_equal_no_change_witness:
  "getMtimeMs example_fs (Some ''/proj/same.json'') = Finite 50 \<and>
   getMtimeMs example_fs (Some ''/proj/a.json'') = Finite 100 \<and>
   mergeJsonc example_platform example_fs (example_options ''same.json'' False True) =
     (Inr \<lparr>r_wrote = False, r_reason = no_content_change, r_preview = None,
           r_out = None, r_backup = None\<rparr>, example_fs) \<and>
   mergeJsonc example_platform example_fs (example_options ''same.json'' True True) =
     (Inr \<lparr>r_wrote = False, r_reason = no_content_change, r_preview = None,
           r_out = None, r_backup = None\<rparr>, example_fs)"
proof -
  have root: "ROOT example_platform = ''/proj''"
    by (simp add: example_platform_def)
  have ins: "resolveInputPaths (ROOT example_platform) example_fs
               (inputs (example_options ''same.json'' d True))
               (orDefault (skipMissing (example_options ''same.json'' d True)) False)
             = Inr [''/proj/a.json'']" for d
    using example_inputs by (simp add: root example_options_def orDefault_def)
  have outp: "safeOutputPath (ROOT example_platform) example_fs
                (out (example_options ''same.json'' d True)) = Inr ''/proj/same.json''" for d
    using example_out_same by (simp add: root example_options_def)
  have ex: "existsSync example_fs ''/proj/same.json''"
    by (simp add: existsSync_def example_fs_def)
  have rd: "readText example_fs ''/proj/same.json'' =
              Inr (JSON_stringify example_platform (JObj [(''a'', JNum 1)])
                (calculateIndentation (indent (example_options ''same.json'' d True))
                   (orDefault (pretty (example_options ''same.json'' d True)) True)))" for d
    by (simp add: example_text) (simp add: readText_def utf8_decode_def example_fs_def MAX_FILE_SIZE_def)
  have t: "getMtimeMs example_fs (Some ''/proj/same.json'') = Finite 50"
          "getMtimeMs example_fs (Some ''/proj/a.json'') = Finite 100"
    by (simp_all add: getMtimeMs_def example_fs_def)
  show ?thesis
    using content_equal_no_change [OF ins _ outp example_merge ex rd, of False]
          content_equal_no_change [OF ins _ outp example_merge ex rd, of True] t
    by simp
qed

text \<open>
  C3.  Without dry-run, when the output file exists, its content differs from the newly
  serialized text, and its modification time is greater than or equal to the maximum
  modification time of the resolved inputs, the result is \<open>up_to_date\<close> and nothing is
  written; equal times count as up to date.
\<close>

theorem newer_output_up_to_date:
  assumes "resolveInputPaths (ROOT pf) fs (inputs opts) (orDefault (skipMissing opts) False)
             = Inr inputAbs"
      and "inputAbs \<noteq> []"
      and "safeOutputPath (ROOT pf) fs (out opts) = Inr outAbs"
      and "mergeFiles pf fs inputAbs = Inr combined"
      and "\<not> orDefault (dryRun opts) False"
      and "existsSync fs outAbs"
      and "readText fs outAbs = Inr current"
      and "current \<noteq> JSON_stringify pf combined
                        (calculateIndentation (indent opts) (orDefault (pretty opts) True))"
      and "number_le (Math_max (map (\<lambda>p. getMtimeMs fs (Some p)) inputAbs))
                     (getMtimeMs fs (Some outAbs))"
  shows "mergeJsonc pf fs opts =
           (Inr \<lparr>r_wrote = False, r_reason = up_to_date, r_preview = None,
                 r_out = None, r_backup = None\<rparr>, fs)"
  using assms
  by (simp add: mergeJsonc_def checkContentChanged_def checkIfUpToDate_def Let_def)

text \<open>In the example the output \<open>tie.json\<close> and the input have the same time.\<close>

theorem newer_output_up_to_date_witness:
  "getMtimeMs example_fs (Some ''/proj/tie.json'') = getMtimeMs example_fs (Some ''/proj/a.json'') \<and>
   mergeJsonc example_platform example_fs (example_options ''tie.json'' False True) =
     (Inr \<lparr>r_wrote = False, r_reason = up_to_date, r_preview = None,
           r_out = None, r_backup = None\<rparr>, example_fs)"
proof -
  have ex: "existsSync example_fs ''/proj/tie.json''"
    by (simp add: existsSync_def example_fs_def)
  have le: "number_le (Math_max (map (\<lambda>p. getMtimeMs example_fs (Some p)) [''/proj/a.json'']))
              (getMtimeMs example_fs (Some ''/proj/tie.json''))"
    by (simp add: example_mtimes Math_max_def number_max_def)
  show ?thesis
    using newer_output_up_to_date [OF example_stage_inputs _
            example_stage_output [OF example_out_tie] example_merge _ ex example_read_tie _ le,
            of False True]
    by (simp add: example_flags example_text example_mtimes)
qed

text \<open>
  C5.  In a dry run that gets past the content-equality check, the timestamp check is
  bypassed, the result is \<open>dry_run\<close> with the serialized text as preview, and no file
  is written: the file system, and with it the output file and any \<open>.bak\<close> file, is
  returned unchanged.
\<close>

theorem dry_run_previews_without_writing:
  assumes "resolveInputPaths (ROOT pf) fs (inputs opts) (orDefault (skipMissing opts) False)
             = Inr inputAbs"
      and "inputAbs \<noteq> []"
      and "safeOutputPath (ROOT pf) fs (out opts) = Inr outAbs"
      and "mergeFiles pf fs inputAbs = Inr combined"
      and "orDefault (dryRun opts) False"
      and "checkContentChanged fs outAbs
             (JSON_stringify pf combined
                (calculateIndentation (indent opts) (orDefault (pretty opts) True))) = Inr True"
  shows "\<not> checkIfUpToDate fs outAbs inputAbs (orDefault (dryRun opts) False) \<and>
         mergeJsonc pf fs opts =
           (Inr \<lparr>r_wrote = False, r_reason = dry_run,
                 r_preview = Some (JSON_stringify pf combined
                   (calculateIndentation (indent opts) (orDefault (pretty opts) True))),
                 r_out = None, r_backup = None\<rparr>, fs)"
  using assms by (simp add: mergeJsonc_def checkIfUpToDate_def Let_def)

text \<open>
  In the example the timestamps of \<open>tie.json\<close> alone would report up to date.
\<close>

theorem dry_run_previews_without_writing_witness:
  \<open>number_le (Math_max (map (\<lambda>p. getMtimeMs example_fs (Some p)) [''/proj/a.json'']))
      (getMtimeMs example_fs (Some ''/proj/tie.json'')) \<and>
   mergeJsonc example_platform example_fs (example_options ''tie.json'' True True) =
     (Inr \<lparr>r_wrote = False, r_reason = dry_run, r_preview = Some ''{"a":1}'',
           r_out = None, r_backup = None\<rparr>, example_fs)\<close>
proof -
  have ch: "checkContentChanged example_fs ''/proj/tie.json''
              (JSON_stringify example_platform (JObj [(''a'', JNum 1)])
                 (calculateIndentation (indent (example_options ''tie.json'' True True))
                    (orDefault (pretty (example_options ''tie.json'' True True)) True)))
            = Inr True"
    by (simp add: example_text) (simp add: checkContentChanged_def example_read_tie example_exists)
  have le: "number_le (Math_max (map (\<lambda>p. getMtimeMs example_fs (Some p)) [''/proj/a.json'']))
              (getMtimeMs example_fs (Some ''/proj/tie.json''))"
    by (simp add: example_mtimes Math_max_def number_max_def)
  show ?thesis
    using dry_run_previews_without_writing [OF example_stage_inputs _
            example_stage_output [OF example_out_tie] example_merge _ ch] le
    by (simp add: example_flags example_text)
qed




text \<open>
  C9.  Every result of \<open>mergeJsonc\<close> satisfies the tag invariant: \<open>wrote\<close> is true
  exactly when the reason is \<open>wrote\<close> or \<open>wrote_with_backup\<close>; the reason is
  \<open>wrote_with_backup\<close> exactly when a backup path is carried, and then the commit has
  created that file from the text read from the output; a preview is carried only with
  the reason \<open>dry_run\<close>.
\<close>

theorem result_tag_invariant:
  assumes "mergeJsonc pf fs opts = (Inr r, fs')"
  shows "(r_wrote r \<longleftrightarrow> r_reason r = wrote \<or> r_reason r = wrote_with_backup) \<and>
         (r_reason r = wrote_with_backup \<longleftrightarrow> r_backup r \<noteq> None) \<and>
         (r_preview r \<noteq> None \<longrightarrow> r_reason r = dry_run) \<and>
         (\<forall>b. r_backup r = Some b \<longrightarrow>
            (\<exists>outAbs old. r_out r = Some outAbs \<and> b = outAbs @ ''.bak'' \<and>
               readText fs outAbs = Inr old \<and>
               files fs' b = Some \<lparr>kind = RegularFile, contents = old, mtimeMs = now fs\<rparr>))"
  using assms
proof (cases rule: mergeJsonc_result_cases)
  case skipped
  then show ?thesis by auto
next
  case (previewed newText)
  then show ?thesis by simp
next
  case (committed inputAbs outAbs newText bp)
  show ?thesis
  proof (cases bp)
    case None
    with committed(5) show ?thesis by simp
  next
    case (Some b)
    with committed(4) have aw:
      "atomicWrite fs outAbs newText (orDefault (backup opts) False) = (Inr (Some b), fs')"
      by simp
    from atomicWrite_with_backup [OF aw] obtain old where
      b: "b = outAbs @ ''.bak''" and old: "readText fs outAbs = Inr old"
      by auto
    from atomicWrite_backup_files(1) [OF aw old] b
    have "files fs' b = Some \<lparr>kind = RegularFile, contents = old, mtimeMs = now fs\<rparr>"
      by simp
    with committed(5) Some b old show ?thesis by simp
  qed
qed

theorem result_tag_invariant_witness:
  "fst (mergeJsonc example_platform example_fs (example_options ''old.json'' False True)) =
     Inr \<lparr>r_wrote = True, r_reason = wrote_with_backup, r_preview = None,
          r_out = Some ''/proj/old.json'', r_backup = Some ''/proj/old.json.bak''\<rparr> \<and>
   readText example_fs ''/proj/old.json'' = Inr ''{}'' \<and>
   files (snd (mergeJsonc example_platform example_fs
                 (example_options ''old.json'' False True))) ''/proj/old.json.bak'' =
     Some \<lparr>kind = RegularFile, contents = ''{}'', mtimeMs = 300\<rparr>"
proof -
  have run: "mergeJsonc example_platform example_fs (example_options ''old.json'' False True) =
      (Inr \<lparr>r_wrote = True, r_reason = wrote_with_backup, r_preview = None,
            r_out = Some ''/proj/old.json'', r_backup = Some ''/proj/old.json.bak''\<rparr>,
       snd (mergeJsonc example_platform example_fs (example_options ''old.json'' False True)))"
    using example_run_old by (simp add: prod_eq_iff)
  have clock: "now example_fs = 300"
    by (simp add: example_fs_def)
  show ?thesis
    using result_tag_invariant [OF run] example_run_old example_read_old clock
    by simp
qed

text \<open>
  C10.  With at least one resolved input and no existing output file, the result is never
  \<open>no_content_change\<close>, \<open>up_to_date\<close> or \<open>wrote_with_backup\<close>: it is \<open>dry_run\<close>
  when dry-run is set and \<open>wrote\<close> otherwise, and no backup is created even when the
  backup flag is set.
\<close>

theorem missing_output_never_skipped:
  assumes "resolveInputPaths (ROOT pf) fs (inputs opts) (orDefault (skipMissing opts) False)
             = Inr inputAbs"
      and "inputAbs \<noteq> []"
      and "safeOutputPath (ROOT pf) fs (out opts) = Inr outAbs"
      and "\<not> existsSync fs outAbs"
      and "mergeJsonc pf fs opts = (Inr r, fs')"
  shows "r_reason r = (if orDefault (dryRun opts) False then dry_run else wrote) \<and>
         r_wrote r = (\<not> orDefault (dryRun opts) False) \<and>
         r_backup r = None \<and>
         files fs' (outAbs @ ''.bak'') = files fs (outAbs @ ''.bak'') \<and>
         (orDefault (dryRun opts) False \<longrightarrow> fs' = fs)"
  using assms(5)
proof (cases rule: mergeJsonc_result_cases)
  case skipped
  from assms have False
    using skipped(2)
    by (auto simp add: mergeJsonc_def Let_def checkContentChanged_def checkIfUpToDate_def
        split: sum.splits if_splits prod.splits)
  then show ?thesis ..
next
  case (previewed newText)
  then show ?thesis by simp
next
  case (committed inputAbs' outAbs' newText bp)
  from committed(1,2) assms(1,3) have eq: "outAbs' = outAbs"
    by simp
  from atomicWrite_backup_iff [OF committed(4)] assms(4) eq have bp: "bp = None"
    by simp
  from committed(4) bp eq have aw:
    "atomicWrite fs outAbs newText (orDefault (backup opts) False) = (Inr None, fs')"
    by simp
  have "files fs' (outAbs @ ''.bak'') = files fs (outAbs @ ''.bak'')"
    by (rule atomicWrite_plain_files(3) [OF aw]) simp_all
  with committed(3,5) bp show ?thesis by simp
qed

text \<open>In the example the backup flag is set and the output \<open>fresh.json\<close> is new.\<close>

theorem missing_output_never_skipped_witness:
  "\<not> existsSync example_fs ''/proj/fresh.json'' \<and>
   orDefault (backup (example_options ''fresh.json'' False True)) False \<and>
   fst (mergeJsonc example_platform example_fs (example_options ''fresh.json'' False True)) =
     Inr \<lparr>r_wrote = True, r_reason = wrote, r_preview = None,
          r_out = Some ''/proj/fresh.json'', r_backup = None\<rparr> \<and>
   files (snd (mergeJsonc example_platform example_fs
                 (example_options ''fresh.json'' False True))) ''/proj/fresh.json.bak'' = None"
proof -
  have run: "mergeJsonc example_platform example_fs (example_options ''fresh.json'' False True) =
      (Inr \<lparr>r_wrote = True, r_reason = wrote, r_preview = None,
            r_out = Some ''/proj/fresh.json'', r_backup = None\<rparr>,
       snd (mergeJsonc example_platform example_fs (example_options ''fresh.json'' False True)))"
    using example_run_fresh by (simp add: prod_eq_iff)
  have nonempty: "[''/proj/a.json''] \<noteq> []"
    by simp
  have nobak: "files example_fs ''/proj/fresh.json.bak'' = None"
    by (simp add: example_fs_def)
  show ?thesis
    using missing_output_never_skipped [OF example_stage_inputs nonempty
            example_stage_output [OF example_out_fresh] example_exists(4) run]
          example_run_fresh nobak
    by (simp add: example_flags example_exists)
qed

end
